theory Spec2Isabelle
  imports Main
begin

section \<open>JavaScript values\<close>

text \<open>
  The build profile (\<^verbatim>\<open>eas.json\<close>) and the credential store
  (\<^verbatim>\<open>~/.build-service.json\<close>) reach the program through \<^verbatim>\<open>JSON.parse\<close>, so the
  values the program inspects are JSON values, plus \<^verbatim>\<open>undefined\<close> (what reading an
  absent property yields) and the functions and prototype objects of the runtime (what
  reading an inherited name such as \<^verbatim>\<open>toString\<close> yields). Numbers are kept as integers:
  the program only tests a number for truthiness. Strings are lists of \<open>char\<close>, read as ASCII.
\<close>

datatype jsval =
    JUndefined
  | JNull
  | JBool bool
  | JNum int
  | JStr string
  | JArr "jsval list"
  | JObj "(string \<times> jsval) list"
  | JBuiltin

text \<open>Truthiness, as \<^verbatim>\<open>if (v)\<close>, \<^verbatim>\<open>!v\<close> and \<^verbatim>\<open>a || b\<close> test it.\<close>

fun truthy :: "jsval \<Rightarrow> bool" where
  "truthy JUndefined = False"
| "truthy JNull = False"
| "truthy (JBool b) = b"
| "truthy (JNum n) = (n \<noteq> 0)"
| "truthy (JStr s) = (s \<noteq> [])"
| "truthy (JArr xs) = True"
| "truthy (JObj kvs) = True"
| "truthy JBuiltin = True"

fun nullish :: "jsval \<Rightarrow> bool" where
  "nullish JUndefined = True"
| "nullish JNull = True"
| "nullish v = False"

text \<open>The decimal rendering of a natural number: array index keys, \<^verbatim>\<open>Date.now().toString()\<close>.\<close>

fun decimal :: "nat \<Rightarrow> string" where
  "decimal n = (if n < 10 then [''0123456789'' ! n]
                else decimal (n div 10) @ [''0123456789'' ! (n mod 10)])"

declare decimal.simps [simp del]

text \<open>
  The own properties of a value. An object has the entries \<^verbatim>\<open>JSON.parse\<close> gave it (each key
  once; were a key listed twice, the first entry is the one held). An array and a string
  have their indices and \<^verbatim>\<open>length\<close>. The other values have none that a JSON document can
  name.
\<close>

fun own_props :: "jsval \<Rightarrow> (string \<times> jsval) list" where
  "own_props (JObj kvs) = kvs"
| "own_props (JArr xs) =
     zip (map decimal [0..<length xs]) xs @ [(''length'', JNum (int (length xs)))]"
| "own_props (JStr s) =
     zip (map decimal [0..<length s]) (map (\<lambda>c. JStr [c]) s) @ [(''length'', JNum (int (length s)))]"
| "own_props v = []"

text \<open>
  \<^verbatim>\<open>v.name\<close> for the names the program writes out (\<^verbatim>\<open>build\<close>, \<^verbatim>\<open>developmentClient\<close>,
  \<^verbatim>\<open>distribution\<close>, \<^verbatim>\<open>android\<close>, \<^verbatim>\<open>buildType\<close>, \<^verbatim>\<open>gradleCommand\<close>, \<^verbatim>\<open>env\<close>,
  \<^verbatim>\<open>autoIncrement\<close>): no prototype of the runtime defines any of them, so the read finds
  an own property or \<^verbatim>\<open>undefined\<close>. Reading a property of \<^verbatim>\<open>undefined\<close> or \<^verbatim>\<open>null\<close> throws;
  every read below is guarded by a truthiness test or by \<^verbatim>\<open>?.\<close> on the receiver.
\<close>

definition getProp :: "jsval \<Rightarrow> string \<Rightarrow> jsval" where
  "getProp v k = (case map_of (own_props v) k of Some x \<Rightarrow> x | None \<Rightarrow> JUndefined)"

text \<open>
  \<^verbatim>\<open>v[k]\<close> for a key chosen by the caller: an own property, else whatever the prototype
  chain of \<open>v\<close> holds under \<open>k\<close> (a function or a prototype object), else \<^verbatim>\<open>undefined\<close>.
  The prototype tables belong to the runtime; \<open>proto v k\<close> says whether they define \<open>k\<close>.
\<close>

definition getElem :: "(jsval \<Rightarrow> string \<Rightarrow> bool) \<Rightarrow> jsval \<Rightarrow> string \<Rightarrow> jsval" where
  "getElem proto v k =
     (case map_of (own_props v) k of
        Some x \<Rightarrow> x
      | None \<Rightarrow> if proto v k then JBuiltin else JUndefined)"

text \<open>Optional chaining: \<^verbatim>\<open>v?.name\<close> and \<^verbatim>\<open>v?.[k]\<close>.\<close>

definition optProp :: "jsval \<Rightarrow> string \<Rightarrow> jsval" where
  "optProp v k = (if nullish v then JUndefined else getProp v k)"

definition optElem :: "(jsval \<Rightarrow> string \<Rightarrow> bool) \<Rightarrow> jsval \<Rightarrow> string \<Rightarrow> jsval" where
  "optElem proto v k = (if nullish v then JUndefined else getElem proto v k)"

text \<open>
  Whether a value can be put into a template literal. Rendering an object calls its
  \<^verbatim>\<open>toString\<close>; an own property of that name, which in a parsed document is never a
  function, hides the inherited one, and the conversion throws. Rendering an array renders
  its elements.
\<close>

fun renders :: "jsval \<Rightarrow> bool" where
  "renders (JObj kvs) = (map_of kvs ''toString'' = None)"
| "renders (JArr xs) = list_all renders xs"
| "renders v = True"

section \<open>Errors and files\<close>

datatype error =
    TypeError
  | SyntaxError
  | FsError
  | ArchiverError
  | StorageError
  | GitHubApiError nat

text \<open>
  What the program finds at a path: nothing (\<^verbatim>\<open>fs.existsSync\<close> is false), something that
  exists but whose read or parse throws, or the content (for a JSON file, the parsed value).
\<close>

datatype 'a fs_entry = Missing | Unreadable | Contents 'a

section \<open>Profile resolution\<close>

record build_config =
  variant :: string
  buildType :: jsval
  gradleCommand :: jsval
  env :: jsval
  autoIncrement :: bool
  distribution :: jsval

definition default_config :: build_config where
  "default_config =
     \<lparr> variant = ''release'',
       buildType = JStr ''apk'',
       gradleCommand = JNull,
       env = JObj [],
       autoIncrement = False,
       distribution = JStr ''internal'' \<rparr>"

text \<open>
  \<^verbatim>\<open>loadEasConfig\<close>: \<^verbatim>\<open>null\<close> when \<^verbatim>\<open>eas.json\<close> is absent, \<^verbatim>\<open>null\<close> when reading or parsing
  it throws (the \<^verbatim>\<open>catch\<close>), the parsed document otherwise. Console output is left out
  here and below.
\<close>

definition loadEasConfig :: "jsval fs_entry \<Rightarrow> jsval" where
  "loadEasConfig f = (case f of Missing \<Rightarrow> JNull | Unreadable \<Rightarrow> JNull | Contents doc \<Rightarrow> doc)"

text \<open>
  \<^verbatim>\<open>mapProfileToConfig\<close>. Two of its log lines can throw, each after the field is stored:
  \<^verbatim>\<open>config.buildType.toUpperCase()\<close>, since a truthy value that is not a string has no such
  method, and the template literal that renders \<^verbatim>\<open>config.gradleCommand\<close>.
\<close>

definition mapProfileToConfig :: "string \<Rightarrow> jsval \<Rightarrow> error + build_config" where
  "mapProfileToConfig profile profileConfig =
     (let c0 = default_config in
      if \<not> truthy profileConfig then Inr c0
      else
        let c1 = (if getProp profileConfig ''developmentClient'' = JBool True
                  then c0\<lparr>variant := ''debug''\<rparr> else c0);
            c2 = (if truthy (getProp profileConfig ''distribution'')
                  then c1\<lparr>distribution := getProp profileConfig ''distribution''\<rparr> else c1);
            android = getProp profileConfig ''android'';
            r3 = (if truthy android then
                    let bt = getProp android ''buildType'';
                        r = (if truthy bt then
                               (case bt of
                                  JStr s \<Rightarrow> Inr (c2\<lparr>buildType := bt\<rparr>)
                                | _ \<Rightarrow> Inl TypeError)
                             else Inr c2)
                    in (case r of
                          Inl e \<Rightarrow> Inl e
                        | Inr c \<Rightarrow>
                            if truthy (getProp android ''gradleCommand'')
                            then (if renders (getProp android ''gradleCommand'')
                                  then Inr (c\<lparr>gradleCommand := getProp android ''gradleCommand''\<rparr>)
                                  else Inl TypeError)
                            else Inr c)
                  else Inr c2)
        in (case r3 of
              Inl e \<Rightarrow> Inl e
            | Inr c3 \<Rightarrow>
                let c4 = (if truthy (getProp profileConfig ''env'')
                          then c3\<lparr>env := getProp profileConfig ''env''\<rparr> else c3);
                    c5 = (if getProp profileConfig ''autoIncrement'' = JBool True
                          then c4\<lparr>autoIncrement := True\<rparr> else c4)
                in Inr c5))"

text \<open>
  Lines 269 to 273 of \<^verbatim>\<open>build\<close>: \<^verbatim>\<open>easConfig?.build?.[profile]\<close> handed to
  \<^verbatim>\<open>mapProfileToConfig\<close>.
\<close>

definition resolveProfile ::
    "(jsval \<Rightarrow> string \<Rightarrow> bool) \<Rightarrow> jsval fs_entry \<Rightarrow> string \<Rightarrow> error + build_config" where
  "resolveProfile proto f profile =
     (let easConfig = loadEasConfig f;
          profileConfig = optElem proto (optProp easConfig ''build'') profile
      in mapProfileToConfig profile profileConfig)"

section \<open>Command derivation\<close>

definition toUpperCase_char :: "char \<Rightarrow> char" where
  "toUpperCase_char c =
     (case map_of (zip ''abcdefghijklmnopqrstuvwxyz'' ''ABCDEFGHIJKLMNOPQRSTUVWXYZ'') c of
        Some u \<Rightarrow> u
      | None \<Rightarrow> c)"

text \<open>\<^verbatim>\<open>s.charAt(0).toUpperCase() + s.slice(1)\<close>; \<^verbatim>\<open>charAt(0)\<close> of the empty string is empty.\<close>

definition capitalized :: "string \<Rightarrow> string" where
  "capitalized s = (case s of [] \<Rightarrow> [] | c # cs \<Rightarrow> toUpperCase_char c # cs)"

definition getGradleCommand :: "build_config \<Rightarrow> jsval" where
  "getGradleCommand config =
     (if truthy (gradleCommand config) then gradleCommand config
      else
        let variantCapitalized = capitalized (variant config) in
        if buildType config = JStr ''aab''
        then JStr (''bundle'' @ variantCapitalized)
        else JStr (''assemble'' @ variantCapitalized))"

section \<open>Dispatch payload\<close>

text \<open>
  A template literal is kept as the list of its pieces, interpolated values unrendered;
  building the string throws when a piece does not render.
\<close>

type_synonym template = "jsval list"

record client_payload =
  source_url :: template
  build_id :: string
  platform :: string
  payload_variant :: string
  build_type :: jsval
  gradle_command :: jsval
  auto_increment :: bool
  payload_env :: jsval

text \<open>The \<^verbatim>\<open>client_payload\<close> that \<^verbatim>\<open>triggerBuild\<close> assembles.\<close>

definition triggerPayload :: "template \<Rightarrow> string \<Rightarrow> build_config \<Rightarrow> client_payload" where
  "triggerPayload sourceUrl buildId buildConfig =
     \<lparr> source_url = sourceUrl,
       build_id = buildId,
       platform = ''android'',
       payload_variant = variant buildConfig,
       build_type = buildType buildConfig,
       gradle_command = getGradleCommand buildConfig,
       auto_increment = autoIncrement buildConfig,
       payload_env = env buildConfig \<rparr>"

section \<open>Ignore patterns and packaging\<close>

text \<open>\<^verbatim>\<open>content.split('\n')\<close>: the pieces between line feeds; the empty string gives one empty piece.\<close>

fun split_lines :: "string \<Rightarrow> string list" where
  "split_lines [] = [[]]"
| "split_lines (c # cs) =
     (if c = CHR 0x0A then [] # split_lines cs
      else (case split_lines cs of
              [] \<Rightarrow> [[c]]
            | l # ls \<Rightarrow> (c # l) # ls))"

text \<open>
  \<^verbatim>\<open>line.trim()\<close>, on ASCII: tab, line feed, vertical tab, form feed, carriage return and
  space are removed from both ends.
\<close>

definition is_space :: "char \<Rightarrow> bool" where
  "is_space c = (c \<in> set [CHR 0x09, CHR 0x0A, CHR 0x0B, CHR 0x0C, CHR 0x0D, CHR 0x20])"

definition trim :: "string \<Rightarrow> string" where
  "trim s = rev (dropWhile is_space (rev (dropWhile is_space s)))"

definition startsWith :: "string \<Rightarrow> char \<Rightarrow> bool" where
  "startsWith s c = (case s of [] \<Rightarrow> False | x # xs \<Rightarrow> x = c)"

definition endsWith :: "string \<Rightarrow> char \<Rightarrow> bool" where
  "endsWith s c = (case rev s of [] \<Rightarrow> False | x # xs \<Rightarrow> x = c)"

text \<open>The patterns read from the content of \<^verbatim>\<open>.buildignore\<close>.\<close>

definition parseBuildIgnore :: "string \<Rightarrow> string list" where
  "parseBuildIgnore buildIgnoreContent =
     map (\<lambda>line. if endsWith line CHR ''/'' then line @ ''**'' else line)
       (filter (\<lambda>line. line \<noteq> [] \<and> \<not> startsWith line CHR ''#'')
          (map trim (split_lines buildIgnoreContent)))"

definition builtinExcludes :: "string list" where
  "builtinExcludes =
     [''node_modules/**'', ''.git/**'', ''.expo/**'', ''dist/**'', ''build/**'', ''.vscode/**'',
      ''*.log'', ''android/app/build/**'', ''android/.gradle/**'', ''android/build/**'',
      ''ios/build/**'', ''ios/Pods/**'']"

text \<open>
  \<^verbatim>\<open>allExcludes\<close> of \<^verbatim>\<open>packageProject\<close>, the list handed to the archiver as \<^verbatim>\<open>ignore\<close>. An
  entry that exists but cannot be read (a directory of that name) makes
  \<^verbatim>\<open>fs.readFileSync\<close> throw.
\<close>

definition allExcludes :: "string fs_entry \<Rightarrow> string list \<Rightarrow> error + string list" where
  "allExcludes buildIgnore excludePatterns =
     (case buildIgnore of
        Unreadable \<Rightarrow> Inl FsError
      | Missing \<Rightarrow> Inr (builtinExcludes @ excludePatterns)
      | Contents buildIgnoreContent \<Rightarrow>
          let buildIgnorePatterns = parseBuildIgnore buildIgnoreContent;
              defaultExcludes = (if length buildIgnorePatterns > 0 then buildIgnorePatterns
                                 else builtinExcludes)
          in Inr (defaultExcludes @ excludePatterns))"

section \<open>The pipeline\<close>

text \<open>
  What one invocation finds outside the program. \<open>isDirectory\<close> is a fact about the project
  root that no statement of the program asks for. \<open>archiverGlob\<close> is the archiver library:
  the error it emits, if any, when told to add \<^verbatim>\<open>**/*\<close> under a root with an ignore list;
  without an error the archive is finished and its stream closes (the globbing library
  below it answers a root that does not exist with an empty listing, and a root that is a
  file with an error). \<open>storageCreateFile\<close> is the storage service: the
  id of the stored file, or the error thrown. \<open>fetchDispatch\<close> is the HTTP request to the
  repository's dispatch endpoint: the response status, or the error thrown. \<open>unlinkSync\<close> is
  the removal of a file: the error thrown, if any.
\<close>

record world =
  cwd :: string
  tmpdir :: string
  packageTime :: nat
  dispatchTime :: nat
  proto :: "jsval \<Rightarrow> string \<Rightarrow> bool"
  configFile :: "jsval fs_entry"
  easJson :: "string \<Rightarrow> jsval fs_entry"
  buildIgnoreFile :: "string \<Rightarrow> string fs_entry"
  isDirectory :: "string \<Rightarrow> bool"
  archiverGlob :: "string \<Rightarrow> string list \<Rightarrow> error option"
  storageCreateFile :: "string \<Rightarrow> error + string"
  fetchDispatch :: "template \<Rightarrow> client_payload \<Rightarrow> error + nat"
  unlinkSync :: "string \<Rightarrow> error option"

record options =
  opt_path :: "string option"
  opt_profile :: "string option"

text \<open>
  The steps of one invocation, in the order they happen. \<open>Upload\<close> is the call of the
  storage client and \<open>Dispatch\<close> the HTTP request; nothing else reaches the network.
\<close>

datatype event =
    LoadConfig
  | LoadEasConfig string
  | MapProfileToConfig string
  | PackageProject string
  | Upload string
  | Dispatch template client_payload
  | Unlink string
  | Exit nat

text \<open>
  \<^verbatim>\<open>packageProject\<close>: the path of the archive, or the error the promise is rejected with.
  The archive is written to \<^verbatim>\<open>build-<timestamp>.tar.gz\<close> in the temporary directory.
\<close>

definition packageProject :: "world \<Rightarrow> string \<Rightarrow> string list \<Rightarrow> error + string" where
  "packageProject w projectPath excludePatterns =
     (let timestamp = packageTime w;
          outputPath = tmpdir w @ ''/build-'' @ decimal timestamp @ ''.tar.gz''
      in case allExcludes (buildIgnoreFile w projectPath) excludePatterns of
           Inl e \<Rightarrow> Inl e
         | Inr excludes \<Rightarrow>
             (case archiverGlob w projectPath excludes of
                Some e \<Rightarrow> Inl e
              | None \<Rightarrow> Inr outputPath))"

text \<open>
  \<^verbatim>\<open>uploadToAppwrite\<close>: reading the credentials off a \<^verbatim>\<open>null\<close> configuration throws before
  anything is sent; otherwise the storage client is called.
\<close>

definition uploadToAppwrite :: "world \<Rightarrow> string \<Rightarrow> jsval \<Rightarrow> event list \<times> (error + string)" where
  "uploadToAppwrite w filePath config =
     (if nullish config then ([], Inl TypeError)
      else ([Upload filePath], storageCreateFile w filePath))"

text \<open>
  \<^verbatim>\<open>triggerBuild\<close>: the build id, or the error thrown. The request goes out once its URL
  and its \<^verbatim>\<open>Authorization\<close> header are built; \<^verbatim>\<open>response.ok\<close> is a status of 200 to 299.
\<close>

definition triggerBuild ::
    "world \<Rightarrow> template \<Rightarrow> build_config \<Rightarrow> jsval \<Rightarrow> event list \<times> (error + string)" where
  "triggerBuild w sourceUrl buildConfig config =
     (let buildId = decimal (dispatchTime w);
          payload = triggerPayload sourceUrl buildId buildConfig;
          url = [JStr ''https://api.github.com/repos/'', getProp config ''githubRepo'',
                 JStr ''/dispatches''];
          authorization = [JStr ''Bearer '', getProp config ''githubToken'']
      in if \<not> list_all renders (url @ authorization) then ([], Inl TypeError)
         else ([Dispatch url payload],
               (case fetchDispatch w url payload of
                  Inl e \<Rightarrow> Inl e
                | Inr status \<Rightarrow>
                    if 200 \<le> status \<and> status \<le> 299 then Inr buildId
                    else Inl (GitHubApiError status))))"

text \<open>\<^verbatim>\<open>options.path || process.cwd()\<close> and \<^verbatim>\<open>options.profile || 'production'\<close>.\<close>

definition projectPathOf :: "world \<Rightarrow> options \<Rightarrow> string" where
  "projectPathOf w options =
     (case opt_path options of
        None \<Rightarrow> cwd w
      | Some p \<Rightarrow> if p = [] then cwd w else p)"

definition profileOf :: "options \<Rightarrow> string" where
  "profileOf options =
     (case opt_profile options of
        None \<Rightarrow> ''production''
      | Some p \<Rightarrow> if p = [] then ''production'' else p)"

text \<open>
  \<^verbatim>\<open>build\<close>, as the list of its steps. \<^verbatim>\<open>loadConfig\<close> ends the process itself when the
  credential store is absent; every error thrown after that lands in the one \<^verbatim>\<open>catch\<close>,
  which reports it and ends the process with code 1. That includes the removal of the
  archive, \<^verbatim>\<open>fs.unlinkSync\<close>, the last statement that can throw. The temporary directory is
  taken to be writable.
\<close>

definition build :: "world \<Rightarrow> options \<Rightarrow> event list" where
  "build w options =
     (let projectPath = projectPathOf w options;
          profile = profileOf options
      in case configFile w of
           Missing \<Rightarrow> [LoadConfig, Exit 1]
         | Unreadable \<Rightarrow> [LoadConfig, Exit 1]
         | Contents config \<Rightarrow>
             let resolving = [LoadConfig, LoadEasConfig projectPath, MapProfileToConfig profile] in
             (case resolveProfile (proto w) (easJson w projectPath) profile of
                Inl e \<Rightarrow> resolving @ [Exit 1]
              | Inr buildConfig \<Rightarrow>
                  (case packageProject w projectPath [] of
                     Inl e \<Rightarrow> resolving @ [PackageProject projectPath, Exit 1]
                   | Inr packagePath \<Rightarrow>
                       (case uploadToAppwrite w packagePath config of
                          (up, Inl e) \<Rightarrow> resolving @ [PackageProject projectPath] @ up @ [Exit 1]
                        | (up, Inr fileId) \<Rightarrow>
                            let sourceUrl = [getProp config ''appwriteEndpoint'',
                                             JStr ''/storage/buckets/'',
                                             getProp config ''appwriteBucket'',
                                             JStr ''/files/'', JStr fileId, JStr ''/download'']
                            in if \<not> list_all renders sourceUrl
                               then resolving @ [PackageProject projectPath] @ up @ [Exit 1]
                               else
                                 (case triggerBuild w sourceUrl buildConfig config of
                                    (tr, Inl e) \<Rightarrow>
                                      resolving @ [PackageProject projectPath] @ up @ tr @ [Exit 1]
                                  | (tr, Inr buildId) \<Rightarrow>
                                      resolving @ [PackageProject projectPath] @ up @ tr
                                        @ [Unlink packagePath]
                                        @ (case unlinkSync w packagePath of
                                             None \<Rightarrow> []
                                           | Some e \<Rightarrow> [Exit 1]))))))"

text \<open>
  The check the plain \<^verbatim>\<open>build\<close> command of the command-line tool makes on the loaded
  credentials before it packages anything (it then ends the process with code 1).
\<close>

definition missingConfiguration :: "jsval \<Rightarrow> bool" where
  "missingConfiguration config =
     (\<not> truthy (getProp config ''appwriteEndpoint'') \<or> \<not> truthy (getProp config ''appwriteProject'')
      \<or> \<not> truthy (getProp config ''appwriteKey'') \<or> \<not> truthy (getProp config ''appwriteBucket'')
      \<or> \<not> truthy (getProp config ''githubToken'') \<or> \<not> truthy (getProp config ''githubRepo''))"

text \<open>The steps that go to the network.\<close>

fun networkCall :: "event \<Rightarrow> bool" where
  "networkCall (Upload p) = True"
| "networkCall (Dispatch url payload) = True"
| "networkCall ev = False"

fun isUnlink :: "event \<Rightarrow> bool" where
  "isUnlink (Unlink p) = True"
| "isUnlink ev = False"

section \<open>A sample environment\<close>

text \<open>
  A project at \<^verbatim>\<open>/app\<close> with neither \<^verbatim>\<open>eas.json\<close> nor \<^verbatim>\<open>.buildignore\<close>, complete
  credentials, and collaborators that all succeed.
\<close>

definition sample_credentials :: jsval where
  "sample_credentials =
     JObj [(''appwriteEndpoint'', JStr ''https://cloud.appwrite.io/v1''),
           (''appwriteProject'', JStr ''proj''),
           (''appwriteKey'', JStr ''key''),
           (''appwriteBucket'', JStr ''bucket''),
           (''githubToken'', JStr ''token''),
           (''githubRepo'', JStr ''owner/repo'')]"

definition credentials_without_repo :: jsval where
  "credentials_without_repo =
     JObj [(''appwriteEndpoint'', JStr ''https://cloud.appwrite.io/v1''),
           (''appwriteProject'', JStr ''proj''),
           (''appwriteKey'', JStr ''key''),
           (''appwriteBucket'', JStr ''bucket''),
           (''githubToken'', JStr ''token'')]"

definition sample_world :: world where
  "sample_world =
     \<lparr> cwd = ''/app'',
       tmpdir = ''/tmp'',
       packageTime = 1,
       dispatchTime = 2,
       proto = (\<lambda>v k. False),
       configFile = Contents sample_credentials,
       easJson = (\<lambda>p. Missing),
       buildIgnoreFile = (\<lambda>p. Missing),
       isDirectory = (\<lambda>p. True),
       archiverGlob = (\<lambda>p excludes. None),
       storageCreateFile = (\<lambda>p. Inr ''file1''),
       fetchDispatch = (\<lambda>url payload. Inr 204),
       unlinkSync = (\<lambda>p. None) \<rparr>"

text \<open>
  An \<^verbatim>\<open>eas.json\<close> whose \<^verbatim>\<open>production\<close> profile sets both a build type and an explicit
  command.
\<close>

definition sample_eas :: jsval where
  "sample_eas =
     JObj [(''build'',
            JObj [(''production'',
                   JObj [(''android'',
                          JObj [(''buildType'', JStr ''aab''),
                                (''gradleCommand'', JStr ''customTask'')])])])]"

definition sample_options :: options where
  "sample_options = \<lparr> opt_path = None, opt_profile = Some ''production'' \<rparr>"

section \<open>Facts about the embedding\<close>

subsection \<open>Property reads\<close>

lemma decimal_digits: "set (decimal n) \<subseteq> set ''0123456789''"
proof (induction n rule: decimal.induct)
  case (1 n)
  have d: "\<And>k. k < 10 \<Longrightarrow> ''0123456789'' ! k \<in> set ''0123456789''"
    using nth_mem[of _ "''0123456789''"] by simp
  show ?case
  proof (cases "n < 10")
    case True
    then show ?thesis using d[of n] by (subst decimal.simps) simp
  next
    case False
    have "n mod 10 < 10" by simp
    with False 1 d[of "n mod 10"] show ?thesis by (subst decimal.simps) simp
  qed
qed

lemma decimal_neq: "c \<in> set k \<Longrightarrow> c \<notin> set ''0123456789'' \<Longrightarrow> k \<noteq> decimal i"
  using decimal_digits[of i] by blast

lemma map_of_index_keys:
  assumes "c \<in> set k" "c \<notin> set ''0123456789''"
  shows "map_of (zip (map decimal [0..<n]) ys) k = None"
proof -
  have "k \<notin> set (map decimal [0..<n])"
    using decimal_neq[OF assms] by auto
  then have "k \<notin> fst ` set (zip (map decimal [0..<n]) ys)"
    by (auto dest: set_zip_leftD)
  then show ?thesis by (simp add: map_of_eq_None_iff)
qed

lemma getProp_word:
  assumes "c \<in> set k" "c \<notin> set ''0123456789''" "k \<noteq> ''length''"
    and "getProp v k \<noteq> JUndefined"
  shows "\<exists>kvs. v = JObj kvs"
proof (cases v)
  case (JArr xs)
  with assms(3,4) map_of_index_keys[OF assms(1,2), of "length xs" xs] show ?thesis
    by (simp add: getProp_def map_add_def)
next
  case (JStr s)
  with assms(3,4) map_of_index_keys[OF assms(1,2), of "length s" "map (\<lambda>c. JStr [c]) s"] show ?thesis
    by (simp add: getProp_def map_add_def)
qed (use assms(4) in \<open>simp_all add: getProp_def\<close>)

lemma getProp_buildType_obj: "getProp a ''buildType'' \<noteq> JUndefined \<Longrightarrow> truthy a"
  using getProp_word[of "CHR ''b''" "''buildType''" a] by auto

lemma getProp_gradleCommand_obj: "getProp a ''gradleCommand'' \<noteq> JUndefined \<Longrightarrow> truthy a"
  using getProp_word[of "CHR ''g''" "''gradleCommand''" a] by auto

lemma getProp_android_obj: "getProp pc ''android'' \<noteq> JUndefined \<Longrightarrow> truthy pc"
  using getProp_word[of "CHR ''a''" "''android''" pc] by auto

lemma getProp_falsy: "\<not> truthy v \<Longrightarrow> k \<noteq> ''length'' \<Longrightarrow> getProp v k = JUndefined"
  by (cases v) (auto simp: getProp_def)

lemma getProp_builtin: "getProp JBuiltin k = JUndefined"
  by (simp add: getProp_def)

subsection \<open>The configuration a profile is mapped to\<close>

lemma mapProfileToConfig_falsy: "\<not> truthy pc \<Longrightarrow> mapProfileToConfig p pc = Inr default_config"
  by (simp add: mapProfileToConfig_def)

lemma mapProfileToConfig_truthy:
  assumes "truthy pc"
  shows "mapProfileToConfig p pc =
    (let a = getProp pc ''android''; bt = getProp a ''buildType''; gc = getProp a ''gradleCommand'' in
     if truthy a \<and> truthy bt \<and> (\<forall>s. bt \<noteq> JStr s) then Inl TypeError
     else if truthy a \<and> truthy gc \<and> \<not> renders gc then Inl TypeError
     else Inr \<lparr> variant = (if getProp pc ''developmentClient'' = JBool True then ''debug'' else ''release''),
                buildType = (if truthy a \<and> truthy bt then bt else JStr ''apk''),
                gradleCommand = (if truthy a \<and> truthy gc then gc else JNull),
                env = (if truthy (getProp pc ''env'') then getProp pc ''env'' else JObj []),
                autoIncrement = (getProp pc ''autoIncrement'' = JBool True),
                distribution = (if truthy (getProp pc ''distribution'') then getProp pc ''distribution'' else JStr ''internal'') \<rparr>)"
proof (cases "truthy (getProp pc ''android'')")
  case False
  with assms show ?thesis
    by (simp add: mapProfileToConfig_def Let_def default_config_def)
next
  case a: True
  show ?thesis
  proof (cases "truthy (getProp (getProp pc ''android'') ''buildType'')")
    case False
    with assms a show ?thesis
      by (simp add: mapProfileToConfig_def Let_def default_config_def)
  next
    case True
    with assms a show ?thesis
      by (cases "getProp (getProp pc ''android'') ''buildType''")
         (simp_all add: mapProfileToConfig_def Let_def default_config_def)
  qed
qed

lemma capitalized_variants:
  "capitalized ''release'' = ''Release''" "capitalized ''debug'' = ''Debug''"
  by (simp_all add: capitalized_def toUpperCase_char_def)

lemma mapProfileToConfig_fields:
  assumes t: "truthy pc" and r: "mapProfileToConfig p pc = Inr c"
  defines "a \<equiv> getProp pc ''android''"
  shows "variant c = (if getProp pc ''developmentClient'' = JBool True then ''debug'' else ''release'')"
    and "buildType c = (if truthy a \<and> truthy (getProp a ''buildType'') then getProp a ''buildType'' else JStr ''apk'')"
    and "gradleCommand c = (if truthy a \<and> truthy (getProp a ''gradleCommand'') then getProp a ''gradleCommand'' else JNull)"
    and "env c = (if truthy (getProp pc ''env'') then getProp pc ''env'' else JObj [])"
    and "autoIncrement c = (getProp pc ''autoIncrement'' = JBool True)"
    and "distribution c = (if truthy (getProp pc ''distribution'') then getProp pc ''distribution'' else JStr ''internal'')"
    and "truthy a \<and> truthy (getProp a ''buildType'') \<longrightarrow> (\<exists>s. getProp a ''buildType'' = JStr s)"
    and "truthy a \<and> truthy (getProp a ''gradleCommand'') \<longrightarrow> renders (getProp a ''gradleCommand'')"
proof -
  let ?e1 = "truthy a \<and> truthy (getProp a ''buildType'') \<and> (\<forall>s. getProp a ''buildType'' \<noteq> JStr s)"
  let ?e2 = "truthy a \<and> truthy (getProp a ''gradleCommand'') \<and> \<not> renders (getProp a ''gradleCommand'')"
  have n1: "\<not> ?e1"
  proof
    assume ?e1
    then have "mapProfileToConfig p pc = Inl TypeError"
      by (simp add: mapProfileToConfig_truthy[OF t] Let_def a_def)
    with r show False by simp
  qed
  have n2: "\<not> ?e2"
  proof
    assume ?e2
    with n1 have "mapProfileToConfig p pc = Inl TypeError"
      by (simp add: mapProfileToConfig_truthy[OF t] Let_def a_def)
    with r show False by simp
  qed
  from n1 n2 have "mapProfileToConfig p pc = Inr \<lparr> variant = (if getProp pc ''developmentClient'' = JBool True then ''debug'' else ''release''),
                buildType = (if truthy a \<and> truthy (getProp a ''buildType'') then getProp a ''buildType'' else JStr ''apk''),
                gradleCommand = (if truthy a \<and> truthy (getProp a ''gradleCommand'') then getProp a ''gradleCommand'' else JNull),
                env = (if truthy (getProp pc ''env'') then getProp pc ''env'' else JObj []),
                autoIncrement = (getProp pc ''autoIncrement'' = JBool True),
                distribution = (if truthy (getProp pc ''distribution'') then getProp pc ''distribution'' else JStr ''internal'') \<rparr>"
    unfolding mapProfileToConfig_truthy[OF t] Let_def a_def[symmetric] by (rule trans[OF if_not_P trans[OF if_not_P refl]])
  with r have c: "c = \<lparr> variant = (if getProp pc ''developmentClient'' = JBool True then ''debug'' else ''release''),
                buildType = (if truthy a \<and> truthy (getProp a ''buildType'') then getProp a ''buildType'' else JStr ''apk''),
                gradleCommand = (if truthy a \<and> truthy (getProp a ''gradleCommand'') then getProp a ''gradleCommand'' else JNull),
                env = (if truthy (getProp pc ''env'') then getProp pc ''env'' else JObj []),
                autoIncrement = (getProp pc ''autoIncrement'' = JBool True),
                distribution = (if truthy (getProp pc ''distribution'') then getProp pc ''distribution'' else JStr ''internal'') \<rparr>"
    by simp
  show "variant c = (if getProp pc ''developmentClient'' = JBool True then ''debug'' else ''release'')"
    by (subst c) simp
  show "buildType c = (if truthy a \<and> truthy (getProp a ''buildType'') then getProp a ''buildType'' else JStr ''apk'')"
    by (subst c) simp
  show "gradleCommand c = (if truthy a \<and> truthy (getProp a ''gradleCommand'') then getProp a ''gradleCommand'' else JNull)"
    by (subst c) simp
  show "env c = (if truthy (getProp pc ''env'') then getProp pc ''env'' else JObj [])"
    by (subst c) simp
  show "autoIncrement c = (getProp pc ''autoIncrement'' = JBool True)"
    by (subst c) simp
  show "distribution c = (if truthy (getProp pc ''distribution'') then getProp pc ''distribution'' else JStr ''internal'')"
    by (subst c) simp
  show "truthy a \<and> truthy (getProp a ''buildType'') \<longrightarrow> (\<exists>s. getProp a ''buildType'' = JStr s)"
    using n1 by blast
  show "truthy a \<and> truthy (getProp a ''gradleCommand'') \<longrightarrow> renders (getProp a ''gradleCommand'')"
    using n2 by blast
qed

lemma mapProfileToConfig_range:
  assumes "mapProfileToConfig p pc = Inr c"
  shows "variant c \<in> {''release'', ''debug''}" and "truthy (gradleCommand c) \<or> gradleCommand c = JNull"
proof -
  show "variant c \<in> {''release'', ''debug''}"
  proof (cases "truthy pc")
    case False
    with assms show ?thesis by (auto simp: mapProfileToConfig_falsy default_config_def)
  next
    case True
    show ?thesis by (simp add: mapProfileToConfig_fields(1)[OF True assms])
  qed
  show "truthy (gradleCommand c) \<or> gradleCommand c = JNull"
  proof (cases "truthy pc")
    case False
    with assms show ?thesis by (auto simp: mapProfileToConfig_falsy default_config_def)
  next
    case True
    show ?thesis by (simp add: mapProfileToConfig_fields(3)[OF True assms])
  qed
qed

lemma getGradleCommand_derived:
  "\<not> truthy (gradleCommand c) \<Longrightarrow>
   getGradleCommand c = JStr ((if buildType c = JStr ''aab'' then ''bundle'' else ''assemble'') @ capitalized (variant c))"
  by (simp add: getGradleCommand_def Let_def)

lemma getGradleCommand_explicit: "truthy (gradleCommand c) \<Longrightarrow> getGradleCommand c = gradleCommand c"
  by (simp add: getGradleCommand_def)

subsection \<open>Ignore patterns\<close>

lemma parseBuildIgnore_empty_iff:
  "parseBuildIgnore content = []
   \<longleftrightarrow> (\<forall>line \<in> set (split_lines content). trim line = [] \<or> startsWith (trim line) CHR ''#'')"
  by (auto simp: parseBuildIgnore_def filter_empty_conv)

lemma parseBuildIgnore_patterns:
  assumes "p \<in> set (parseBuildIgnore content)"
  shows "p \<noteq> [] \<and> \<not> startsWith p CHR ''#'' \<and> \<not> endsWith p CHR ''/''"
proof -
  from assms obtain l where l: "l \<noteq> []" "\<not> startsWith l CHR ''#''"
    and p: "p = (if endsWith l CHR ''/'' then l @ ''**'' else l)"
    by (auto simp: parseBuildIgnore_def)
  show ?thesis
  proof (cases "endsWith l CHR ''/''")
    case True
    with l p show ?thesis by (cases l) (simp_all add: startsWith_def endsWith_def)
  next
    case False
    with l p show ?thesis by simp
  qed
qed

lemma parse_example:
  "parseBuildIgnore (''# build output\<newline>  dist/ \<newline>\<newline>*.tmp'')
     = [''dist/**'', ''*.tmp'']"
  by (simp add: parseBuildIgnore_def trim_def is_space_def startsWith_def endsWith_def)

lemma parse_example2:
  "parseBuildIgnore (''# one\<newline>   \<newline> # two\<newline>'') = []"
  by (simp add: parseBuildIgnore_def trim_def is_space_def startsWith_def endsWith_def)

subsection \<open>Steps of the pipeline\<close>

lemma uploadToAppwrite_cases:
  assumes "uploadToAppwrite w p config = (up, r)"
  shows "(up = [] \<and> r = Inl TypeError) \<or> (up = [Upload p] \<and> r = storageCreateFile w p \<and> \<not> nullish config)"
  using assms by (auto simp: uploadToAppwrite_def split: if_splits)

lemma triggerBuild_cases:
  assumes "triggerBuild w src c config = (tr, r)"
  shows "(tr = [] \<and> r = Inl TypeError)
       \<or> (\<exists>url. tr = [Dispatch url (triggerPayload src (decimal (dispatchTime w)) c)]
             \<and> ((\<exists>status. fetchDispatch w url (triggerPayload src (decimal (dispatchTime w)) c) = Inr status
                    \<and> 200 \<le> status \<and> status \<le> 299 \<and> r = Inr (decimal (dispatchTime w)))
                \<or> (\<exists>e. r = Inl e)))"
  using assms by (auto simp: triggerBuild_def Let_def split: if_splits sum.splits)

lemma build_trace:
  "(\<exists>pre. build w options = pre @ [Exit 1] \<and> \<not> list_ex isUnlink pre
       \<and> (\<forall>url pl. Dispatch url pl \<in> set pre \<longrightarrow>
             (\<exists>c src. resolveProfile (proto w) (easJson w (projectPathOf w options)) (profileOf options) = Inr c
                     \<and> pl = triggerPayload src (decimal (dispatchTime w)) c)))
   \<or> (\<exists>pre url pl status p c src config fileId.
         packageProject w (projectPathOf w options) [] = Inr p
       \<and> configFile w = Contents config \<and> storageCreateFile w p = Inr fileId
       \<and> resolveProfile (proto w) (easJson w (projectPathOf w options)) (profileOf options) = Inr c
       \<and> pl = triggerPayload src (decimal (dispatchTime w)) c
       \<and> fetchDispatch w url pl = Inr status \<and> 200 \<le> status \<and> status \<le> 299
       \<and> list_all (\<lambda>ev. \<not> isUnlink ev \<and> ev \<noteq> Exit 1 \<and> (\<forall>u q. ev \<noteq> Dispatch u q)) pre
       \<and> build w options
            = pre @ [Dispatch url pl, Unlink p]
                @ (case unlinkSync w p of None \<Rightarrow> [] | Some e \<Rightarrow> [Exit 1]))"
  (is "?F \<or> ?S")
proof (cases "configFile w")
  case Missing
  then have "build w options = [LoadConfig] @ [Exit 1]" by (simp add: build_def Let_def)
  then have ?F by (intro exI[of _ "[LoadConfig]"]) simp
  then show ?thesis ..
next
  case Unreadable
  then have "build w options = [LoadConfig] @ [Exit 1]" by (simp add: build_def Let_def)
  then have ?F by (intro exI[of _ "[LoadConfig]"]) simp
  then show ?thesis ..
next
  case (Contents config)
  let ?pp = "projectPathOf w options"
  let ?R = "[LoadConfig, LoadEasConfig ?pp, MapProfileToConfig (profileOf options)]"
  show ?thesis
  proof (cases "resolveProfile (proto w) (easJson w ?pp) (profileOf options)")
    case (Inl e)
    with Contents have "build w options = ?R @ [Exit 1]" by (simp add: build_def Let_def)
    then have ?F by (intro exI[of _ ?R]) simp
    then show ?thesis ..
  next
    case (Inr c)
    show ?thesis
    proof (cases "packageProject w ?pp []")
      case (Inl e)
      with Contents Inr have "build w options = (?R @ [PackageProject ?pp]) @ [Exit 1]"
        by (simp add: build_def Let_def)
      then have ?F by (intro exI[of _ "?R @ [PackageProject ?pp]"]) simp
      then show ?thesis ..
    next
      case pk: (Inr p)
      obtain up r where u: "uploadToAppwrite w p config = (up, r)"
        by (cases "uploadToAppwrite w p config")
      from uploadToAppwrite_cases[OF u] have up: "up = [] \<or> up = [Upload p]" by blast
      let ?src = "[getProp config ''appwriteEndpoint'', JStr ''/storage/buckets/'',
                   getProp config ''appwriteBucket'', JStr ''/files/'']"
      show ?thesis
      proof (cases r)
        case (Inl e)
        with Contents Inr pk u have "build w options = (?R @ [PackageProject ?pp] @ up) @ [Exit 1]"
          by (simp add: build_def Let_def)
        with up have ?F by (intro exI[of _ "?R @ [PackageProject ?pp] @ up"]) auto
        then show ?thesis ..
      next
        case uok: (Inr fileId)
        let ?url = "?src @ [JStr fileId, JStr ''/download'']"
        show ?thesis
        proof (cases "list_all renders ?url")
          case False
          with Contents Inr pk u uok have "build w options = (?R @ [PackageProject ?pp] @ up) @ [Exit 1]"
            by (simp add: build_def Let_def)
          with up have ?F by (intro exI[of _ "?R @ [PackageProject ?pp] @ up"]) auto
          then show ?thesis ..
        next
          case True
          obtain tr r2 where t: "triggerBuild w ?url c config = (tr, r2)"
            by (cases "triggerBuild w ?url c config")
          show ?thesis
          proof (cases r2)
            case (Inl e)
            with Contents Inr pk u uok True t
            have b: "build w options = (?R @ [PackageProject ?pp] @ up @ tr) @ [Exit 1]"
              by (simp add: build_def Let_def)
            from triggerBuild_cases[OF t]
            have "tr = [] \<or> (\<exists>url. tr = [Dispatch url (triggerPayload ?url (decimal (dispatchTime w)) c)])"
              by blast
            with up Inr b have ?F
              by (intro exI[of _ "?R @ [PackageProject ?pp] @ up @ tr"]) auto
            then show ?thesis ..
          next
            case ok: (Inr buildId)
            with Contents Inr pk u uok True t
            have b: "build w options = (?R @ [PackageProject ?pp] @ up @ tr) @ [Unlink p]
                       @ (case unlinkSync w p of None \<Rightarrow> [] | Some e \<Rightarrow> [Exit 1])"
              by (simp add: build_def Let_def)
            from triggerBuild_cases[OF t] ok obtain url status where
              tr: "tr = [Dispatch url (triggerPayload ?url (decimal (dispatchTime w)) c)]"
              and f: "fetchDispatch w url (triggerPayload ?url (decimal (dispatchTime w)) c) = Inr status"
                 "200 \<le> status" "status \<le> 299"
              by auto
            have ?S
              apply (rule exI[of _ "?R @ [PackageProject ?pp] @ up"])
              apply (rule exI[of _ url])
              apply (rule exI[of _ "triggerPayload ?url (decimal (dispatchTime w)) c"])
              apply (rule exI[of _ status])
              apply (rule exI[of _ p])
              apply (rule exI[of _ c])
              apply (rule exI[of _ ?url])
              apply (rule exI[of _ config])
              apply (rule exI[of _ fileId])
              using pk Inr f up b tr Contents uploadToAppwrite_cases[OF u] uok by auto
            then show ?thesis ..
          qed
        qed
      qed
    qed
  qed
qed

lemma build_dispatch_payload:
  assumes "Dispatch url pl \<in> set (build w options)"
  shows "\<exists>c src. resolveProfile (proto w) (easJson w (projectPathOf w options)) (profileOf options) = Inr c
               \<and> pl = triggerPayload src (decimal (dispatchTime w)) c"
  using build_trace[of w options] assms
  by (elim disjE exE conjE) (auto simp: list_all_iff split: option.splits)

lemma build_reaches_dispatch:
  assumes "configFile w = Contents config" and "\<not> nullish config"
    and "resolveProfile (proto w) (easJson w (projectPathOf w options)) (profileOf options) = Inr c"
    and "packageProject w (projectPathOf w options) [] = Inr pk"
    and "storageCreateFile w pk = Inr fileId"
    and "list_all renders [getProp config ''appwriteEndpoint'', getProp config ''appwriteBucket'',
                           getProp config ''githubRepo'', getProp config ''githubToken'']"
  shows "\<exists>url pl. Dispatch url pl \<in> set (build w options)"
proof -
  let ?src = "[getProp config ''appwriteEndpoint'', JStr ''/storage/buckets/'',
               getProp config ''appwriteBucket'', JStr ''/files/'', JStr fileId, JStr ''/download'']"
  let ?url = "[JStr ''https://api.github.com/repos/'', getProp config ''githubRepo'', JStr ''/dispatches'']"
  let ?pl = "triggerPayload ?src (decimal (dispatchTime w)) c"
  from assms(6) have tr: "fst (triggerBuild w ?src c config) = [Dispatch ?url ?pl]"
    by (simp add: triggerBuild_def Let_def)
  obtain t r where t: "triggerBuild w ?src c config = (t, r)" by (cases "triggerBuild w ?src c config")
  with tr have t': "t = [Dispatch ?url ?pl]" by simp
  from assms t t' have "Dispatch ?url ?pl \<in> set (build w options)"
    by (cases r) (simp_all add: build_def Let_def uploadToAppwrite_def)
  then show ?thesis by blast
qed

lemma packageProject_fails_iff:
  "(\<exists>e. packageProject w p ex = Inl e)
   \<longleftrightarrow> (buildIgnoreFile w p = Unreadable
        \<or> (\<exists>excludes. allExcludes (buildIgnoreFile w p) ex = Inr excludes \<and> archiverGlob w p excludes \<noteq> None))"
  by (cases "buildIgnoreFile w p")
     (auto simp: packageProject_def Let_def allExcludes_def split: sum.splits option.splits)

section \<open>The claims\<close>

subsection \<open>C1: command derivation\<close>

text \<open>
  Claim C1. For a configuration without an explicit command, \<^verbatim>\<open>getGradleCommand\<close> returns
  one of \<^verbatim>\<open>assembleRelease\<close>, \<^verbatim>\<open>assembleDebug\<close>, \<^verbatim>\<open>bundleRelease\<close>, \<^verbatim>\<open>bundleDebug\<close>; for a
  configuration with an explicit command it returns that command unchanged. The variant of
  every configuration that \<^verbatim>\<open>mapProfileToConfig\<close> produces is \<^verbatim>\<open>release\<close> or \<^verbatim>\<open>debug\<close>, and
  its explicit command is either a truthy value or \<^verbatim>\<open>null\<close>, so one of the two cases applies.
  The function is a total HOL function: it returns on every configuration.
\<close>

theorem getGradleCommand_four_or_explicit:
  "(\<not> truthy (gradleCommand c) \<and> variant c \<in> {''release'', ''debug''} \<longrightarrow>
      getGradleCommand c \<in> {JStr ''assembleRelease'', JStr ''assembleDebug'',
                             JStr ''bundleRelease'', JStr ''bundleDebug''})
   \<and> (truthy (gradleCommand c) \<longrightarrow> getGradleCommand c = gradleCommand c)
   \<and> (mapProfileToConfig p pc = Inr c \<longrightarrow>
        variant c \<in> {''release'', ''debug''} \<and> (truthy (gradleCommand c) \<or> gradleCommand c = JNull))"
proof (intro conjI impI)
  assume "\<not> truthy (gradleCommand c) \<and> variant c \<in> {''release'', ''debug''}"
  then show "getGradleCommand c \<in> {JStr ''assembleRelease'', JStr ''assembleDebug'',
                             JStr ''bundleRelease'', JStr ''bundleDebug''}"
    by (auto simp: getGradleCommand_derived capitalized_variants)
next
  assume "truthy (gradleCommand c)"
  then show "getGradleCommand c = gradleCommand c" by (rule getGradleCommand_explicit)
next
  assume "mapProfileToConfig p pc = Inr c"
  then show "variant c \<in> {''release'', ''debug''}" by (rule mapProfileToConfig_range(1))
next
  assume "mapProfileToConfig p pc = Inr c"
  then show "truthy (gradleCommand c) \<or> gradleCommand c = JNull" by (rule mapProfileToConfig_range(2))
qed

theorem getGradleCommand_four_or_explicit_witness:
  "getGradleCommand default_config
     \<in> {JStr ''assembleRelease'', JStr ''assembleDebug'', JStr ''bundleRelease'', JStr ''bundleDebug''}
   \<and> getGradleCommand (default_config\<lparr>gradleCommand := JStr ''customTask''\<rparr>) = JStr ''customTask''
   \<and> mapProfileToConfig ''production'' JUndefined = Inr default_config"
  using getGradleCommand_four_or_explicit[of default_config "''production''" JUndefined]
    getGradleCommand_four_or_explicit[of "default_config\<lparr>gradleCommand := JStr ''customTask''\<rparr>"]
  by (simp add: default_config_def mapProfileToConfig_falsy)

subsection \<open>C2: build types outside apk and aab\<close>

text \<open>
  Claim C2 says that a build type outside the recognized set never appears in the resulting
  configuration. The profile \<^verbatim>\<open>{android: {buildType: "ipa"}}\<close> is mapped to a configuration
  whose build type is \<^verbatim>\<open>ipa\<close>.
\<close>

theorem buildType_unrecognized_counterexample:
  "mapProfileToConfig ''production'' (JObj [(''android'', JObj [(''buildType'', JStr ''ipa'')])])
     = Inr (default_config\<lparr>buildType := JStr ''ipa''\<rparr>)"
  by (simp add: mapProfileToConfig_def Let_def default_config_def getProp_def)

text \<open>
  Claim C2, amended. A build type that is a non-empty string, recognized or not, is not
  rejected: the mapping returns a configuration whenever the profile's explicit command, if
  any, can be rendered into its log line, and every configuration it returns holds the build
  type as it is. Only the derived command falls back: without an explicit command it is
  \<^verbatim>\<open>bundle\<close> plus the capitalized variant for \<^verbatim>\<open>aab\<close>, and \<^verbatim>\<open>assemble\<close> plus the capitalized
  variant for every other build type.
\<close>

theorem buildType_copied_verbatim:
  assumes "getProp (getProp pc ''android'') ''buildType'' = JStr b" and "b \<noteq> []"
  shows "(renders (getProp (getProp pc ''android'') ''gradleCommand'') \<longrightarrow>
            (\<exists>c. mapProfileToConfig p pc = Inr c))
       \<and> (\<forall>c. mapProfileToConfig p pc = Inr c \<longrightarrow>
              buildType c = JStr b
            \<and> (\<not> truthy (gradleCommand c) \<longrightarrow>
                 getGradleCommand c
                   = JStr ((if b = ''aab'' then ''bundle'' else ''assemble'') @ capitalized (variant c))))"
proof -
  let ?a = "getProp pc ''android''"
  from assms(1) have ta: "truthy ?a" by (intro getProp_buildType_obj) simp
  then have tp: "truthy pc" by (intro getProp_android_obj) auto
  from assms have tb: "truthy (getProp ?a ''buildType'')" by simp
  have ex: "renders (getProp ?a ''gradleCommand'') \<longrightarrow> (\<exists>c. mapProfileToConfig p pc = Inr c)"
    using assms(1) by (simp add: mapProfileToConfig_truthy[OF tp] Let_def)
  have all: "buildType c = JStr b
            \<and> (\<not> truthy (gradleCommand c) \<longrightarrow>
                 getGradleCommand c
                   = JStr ((if b = ''aab'' then ''bundle'' else ''assemble'') @ capitalized (variant c)))"
    if c: "mapProfileToConfig p pc = Inr c" for c
  proof -
    have bt: "buildType c = JStr b"
      using mapProfileToConfig_fields(2)[OF tp c] ta tb assms(1) by simp
    with getGradleCommand_derived[of c] show ?thesis by auto
  qed
  from ex all show ?thesis by blast
qed

theorem buildType_copied_verbatim_witness:
  "\<exists>c. mapProfileToConfig ''production'' (JObj [(''android'', JObj [(''buildType'', JStr ''ipa'')])]) = Inr c
       \<and> buildType c = JStr ''ipa''
       \<and> getGradleCommand c = JStr (''assemble'' @ capitalized (variant c))"
proof -
  let ?pc = "JObj [(''android'', JObj [(''buildType'', JStr ''ipa'')])]"
  have h: "getProp (getProp ?pc ''android'') ''buildType'' = JStr ''ipa''" "''ipa'' \<noteq> []"
    by (simp_all add: getProp_def)
  have r: "renders (getProp (getProp ?pc ''android'') ''gradleCommand'')"
    by (simp add: getProp_def)
  note t = buildType_copied_verbatim[OF h, of "''production''"]
  from t r obtain c where c: "mapProfileToConfig ''production'' ?pc = Inr c" by blast
  with t have "buildType c = JStr ''ipa''"
    and d: "\<not> truthy (gradleCommand c) \<longrightarrow> getGradleCommand c = JStr (''assemble'' @ capitalized (variant c))"
    by auto
  moreover from c have "\<not> truthy (gradleCommand c)"
    by (auto simp: mapProfileToConfig_def Let_def default_config_def getProp_def)
  ultimately show ?thesis using c by blast
qed

subsection \<open>C3: explicit command together with a build type\<close>

text \<open>
  Claim C3 speaks of every profile that sets both fields. A field is taken only when its
  value is truthy: with the build type set to the empty string the configuration keeps
  \<^verbatim>\<open>apk\<close>, not the declared value. With the build type set to a number no configuration
  is produced at all.
\<close>

theorem explicit_command_counterexample:
  "mapProfileToConfig ''production''
     (JObj [(''android'', JObj [(''buildType'', JStr ''''), (''gradleCommand'', JStr ''customTask'')])])
     = Inr (default_config\<lparr>gradleCommand := JStr ''customTask''\<rparr>)
   \<and> buildType (default_config\<lparr>gradleCommand := JStr ''customTask''\<rparr>) = JStr ''apk''
   \<and> mapProfileToConfig ''production''
     (JObj [(''android'', JObj [(''buildType'', JNum 5), (''gradleCommand'', JStr ''customTask'')])])
     = Inl TypeError"
  by (simp add: mapProfileToConfig_def Let_def default_config_def getProp_def)

text \<open>
  Claim C3, amended. For a profile whose \<^verbatim>\<open>android\<close> block holds a build type that is a
  non-empty string and an explicit command that is truthy and can be rendered into the log
  line (as every non-empty string can), the derived command is the explicit command and the
  configuration's build type is the declared one. When that profile is the one \<^verbatim>\<open>build\<close>
  selects, every payload it dispatches carries the explicit command as \<^verbatim>\<open>gradle_command\<close>
  and the declared build type as \<^verbatim>\<open>build_type\<close>, and it does dispatch one once the
  credential store is not \<^verbatim>\<open>null\<close>, its fields can be rendered, and packaging and upload
  succeed.
\<close>

theorem explicit_command_with_buildType:
  assumes "getProp (getProp pc ''android'') ''buildType'' = JStr b" and "b \<noteq> []"
    and "getProp (getProp pc ''android'') ''gradleCommand'' = g" and "truthy g" and "renders g"
  shows "(\<exists>c. mapProfileToConfig p pc = Inr c \<and> getGradleCommand c = g \<and> buildType c = JStr b)
       \<and> (pc = optElem (proto w) (optProp (loadEasConfig (easJson w (projectPathOf w options))) ''build'')
                  (profileOf options) \<longrightarrow>
            (\<forall>url pl. Dispatch url pl \<in> set (build w options) \<longrightarrow>
                        gradle_command pl = g \<and> build_type pl = JStr b)
          \<and> (\<forall>config pk fileId.
                 configFile w = Contents config \<and> \<not> nullish config
               \<and> packageProject w (projectPathOf w options) [] = Inr pk
               \<and> storageCreateFile w pk = Inr fileId
               \<and> list_all renders [getProp config ''appwriteEndpoint'', getProp config ''appwriteBucket'',
                                    getProp config ''githubRepo'', getProp config ''githubToken'']
               \<longrightarrow> (\<exists>url pl. Dispatch url pl \<in> set (build w options))))"
proof -
  let ?a = "getProp pc ''android''"
  from assms(1) have ta: "truthy ?a" by (intro getProp_buildType_obj) simp
  then have tp: "truthy pc" by (intro getProp_android_obj) auto
  from assms(1,2) have tb: "truthy (getProp ?a ''buildType'')" by simp
  have cfg: "getGradleCommand c = g \<and> buildType c = JStr b" if c: "mapProfileToConfig q pc = Inr c" for q c
  proof -
    have bt: "buildType c = JStr b"
      using mapProfileToConfig_fields(2)[OF tp c] ta tb assms(1) by simp
    have gc: "gradleCommand c = g"
      using mapProfileToConfig_fields(3)[OF tp c] ta assms(3,4) by simp
    with assms(4) have "getGradleCommand c = g" by (simp add: getGradleCommand_explicit)
    with bt show ?thesis by simp
  qed
  have ex: "\<exists>c. mapProfileToConfig q pc = Inr c" for q
    using assms(1,3,5) by (simp add: mapProfileToConfig_truthy[OF tp] Let_def)
  from ex[of p] cfg have first: "\<exists>c. mapProfileToConfig p pc = Inr c \<and> getGradleCommand c = g \<and> buildType c = JStr b"
    by blast
  have second: "gradle_command pl = g \<and> build_type pl = JStr b"
    if pc: "pc = optElem (proto w) (optProp (loadEasConfig (easJson w (projectPathOf w options))) ''build'') (profileOf options)"
      and d: "Dispatch url pl \<in> set (build w options)" for url pl
  proof -
    from build_dispatch_payload[OF d] obtain c src where
      r: "resolveProfile (proto w) (easJson w (projectPathOf w options)) (profileOf options) = Inr c"
      and pl: "pl = triggerPayload src (decimal (dispatchTime w)) c" by blast
    from r pc have "mapProfileToConfig (profileOf options) pc = Inr c"
      by (simp add: resolveProfile_def Let_def)
    from cfg[OF this] pl show ?thesis by (simp add: triggerPayload_def)
  qed
  have third: "\<exists>url pl. Dispatch url pl \<in> set (build w options)"
    if pc: "pc = optElem (proto w) (optProp (loadEasConfig (easJson w (projectPathOf w options))) ''build'') (profileOf options)"
      and h: "configFile w = Contents config" "\<not> nullish config"
        "packageProject w (projectPathOf w options) [] = Inr pk"
        "storageCreateFile w pk = Inr fileId"
        "list_all renders [getProp config ''appwriteEndpoint'', getProp config ''appwriteBucket'',
                                    getProp config ''githubRepo'', getProp config ''githubToken'']"
    for config pk fileId
  proof -
    from ex[of "profileOf options"] obtain c where "mapProfileToConfig (profileOf options) pc = Inr c" ..
    with pc have "resolveProfile (proto w) (easJson w (projectPathOf w options)) (profileOf options) = Inr c"
      by (simp add: resolveProfile_def Let_def)
    from build_reaches_dispatch[OF h(1,2) this h(3,4,5)] show ?thesis .
  qed
  from first second third show ?thesis by blast
qed

theorem explicit_command_with_buildType_witness:
  "\<exists>url pl. Dispatch url pl \<in> set (build (sample_world\<lparr>easJson := \<lambda>p. Contents sample_eas\<rparr>) sample_options)
       \<and> gradle_command pl = JStr ''customTask'' \<and> build_type pl = JStr ''aab''"
proof -
  let ?w = "sample_world\<lparr>easJson := \<lambda>p. Contents sample_eas\<rparr>"
  let ?pc = "optElem (proto ?w) (optProp (loadEasConfig (easJson ?w (projectPathOf ?w sample_options))) ''build'')
               (profileOf sample_options)"
  have h: "getProp (getProp ?pc ''android'') ''buildType'' = JStr ''aab''" "''aab'' \<noteq> []"
    "getProp (getProp ?pc ''android'') ''gradleCommand'' = JStr ''customTask''"
    "truthy (JStr ''customTask'')" "renders (JStr ''customTask'')"
    by code_simp+
  note t = explicit_command_with_buildType[OF h, of "''production''" ?w sample_options]
  have c: "configFile ?w = Contents sample_credentials \<and> \<not> nullish sample_credentials
        \<and> packageProject ?w (projectPathOf ?w sample_options) [] = Inr ''/tmp/build-1.tar.gz''
        \<and> storageCreateFile ?w ''/tmp/build-1.tar.gz'' = Inr ''file1''
        \<and> list_all renders [getProp sample_credentials ''appwriteEndpoint'', getProp sample_credentials ''appwriteBucket'',
                             getProp sample_credentials ''githubRepo'', getProp sample_credentials ''githubToken'']"
    by code_simp
  from t c obtain url pl where d: "Dispatch url pl \<in> set (build ?w sample_options)" by blast
  with t have "gradle_command pl = JStr ''customTask'' \<and> build_type pl = JStr ''aab''" by blast
  with d show ?thesis by blast
qed

subsection \<open>C4: defaults when the profile cannot be found\<close>

text \<open>
  Claim C4. When \<^verbatim>\<open>eas.json\<close> is absent, cannot be read or parsed, or holds no own entry for
  the requested profile under \<^verbatim>\<open>build\<close>, profile resolution returns the default configuration
  and does not throw. This holds whatever the runtime's prototypes define, so also for a
  profile named like an inherited property.
\<close>

theorem resolveProfile_defaults:
  assumes "f = Missing \<or> f = Unreadable
           \<or> (\<exists>doc. f = Contents doc \<and> map_of (own_props (optProp doc ''build'')) profile = None)"
  shows "resolveProfile pr f profile = Inr default_config"
proof -
  let ?pc = "optElem pr (optProp (loadEasConfig f) ''build'') profile"
  have "?pc = JUndefined \<or> ?pc = JBuiltin"
    using assms
    by (auto simp: loadEasConfig_def optElem_def optProp_def getElem_def)
  then show ?thesis
  proof
    assume "?pc = JUndefined"
    then show ?thesis by (simp add: resolveProfile_def Let_def mapProfileToConfig_falsy)
  next
    assume "?pc = JBuiltin"
    then show ?thesis
      by (simp add: resolveProfile_def Let_def mapProfileToConfig_def getProp_builtin)
  qed
qed

theorem resolveProfile_defaults_witness:
  "resolveProfile (\<lambda>v k. True) Missing ''production'' = Inr default_config
   \<and> resolveProfile (\<lambda>v k. True) Unreadable ''production'' = Inr default_config
   \<and> resolveProfile (\<lambda>v k. True)
        (Contents (JObj [(''build'', JObj [(''preview'', JObj [(''developmentClient'', JBool True)])])]))
        ''toString'' = Inr default_config"
  using resolveProfile_defaults[of Missing "''production''" "\<lambda>v k. True"]
    resolveProfile_defaults[of Unreadable "''production''" "\<lambda>v k. True"]
    resolveProfile_defaults[of "Contents (JObj [(''build'', JObj [(''preview'', JObj [(''developmentClient'', JBool True)])])])"
       "''toString''" "\<lambda>v k. True"]
  by (simp add: optProp_def getProp_def)

subsection \<open>C5: the ignore file as an override\<close>

text \<open>
  Claim C5 says that whenever \<^verbatim>\<open>.buildignore\<close> exists the effective list is the file's
  patterns followed by the caller's. For a file that holds only a comment line the parsed
  list is empty and the effective list is the built-in list followed by the caller's.
\<close>

theorem buildignore_empty_counterexample:
  "parseBuildIgnore ''# nothing to exclude'' = []
   \<and> allExcludes (Contents ''# nothing to exclude'') [''secret/**'']
       = Inr (builtinExcludes @ [''secret/**''])
   \<and> allExcludes (Contents ''# nothing to exclude'') [''secret/**'']
       \<noteq> Inr (parseBuildIgnore ''# nothing to exclude'' @ [''secret/**''])"
proof -
  have p: "parseBuildIgnore ''# nothing to exclude'' = []"
    by (simp add: parseBuildIgnore_def trim_def is_space_def startsWith_def)
  show ?thesis
    by (simp add: p allExcludes_def Let_def) (simp add: builtinExcludes_def)
qed

text \<open>
  Claim C5, amended. Whenever \<^verbatim>\<open>.buildignore\<close> exists and at least one pattern is parsed
  from it, the effective list is exactly the parsed patterns followed by the caller's
  patterns, and no built-in pattern is added. No parsed pattern is blank, starts with the
  comment marker, or ends with the separator.
\<close>

theorem buildignore_overrides_when_nonempty:
  assumes "parseBuildIgnore content \<noteq> []"
  shows "allExcludes (Contents content) excludePatterns
           = Inr (parseBuildIgnore content @ excludePatterns)
         \<and> (\<forall>p \<in> set (parseBuildIgnore content).
               p \<noteq> [] \<and> \<not> startsWith p CHR ''#'' \<and> \<not> endsWith p CHR ''/'')"
  using assms parseBuildIgnore_patterns[of _ content]
  by (simp add: allExcludes_def Let_def)

theorem buildignore_overrides_when_nonempty_witness:
  "allExcludes (Contents (''# build output\<newline>  dist/ \<newline>\<newline>*.tmp''))
       [''secret/**'']
     = Inr [''dist/**'', ''*.tmp'', ''secret/**'']"
  using buildignore_overrides_when_nonempty[of
      "''# build output\<newline>  dist/ \<newline>\<newline>*.tmp''" "[''secret/**'']"]
  by (simp add: parse_example)

subsection \<open>C6: incomplete credentials\<close>

text \<open>
  Claim C6 says that a credential store lacking a required field makes the pipeline stop
  before the profile is resolved. With the repository field absent, \<^verbatim>\<open>build\<close> reads
  \<^verbatim>\<open>eas.json\<close>, maps the profile, packages the project and calls the storage service; with
  every field absent it still reads \<^verbatim>\<open>eas.json\<close>, maps the profile and packages the project.
  The plain \<^verbatim>\<open>build\<close> command rejects both stores (\<open>missingConfiguration\<close>).
\<close>

theorem missing_credentials_not_checked:
  "missingConfiguration credentials_without_repo
   \<and> take 5 (build (sample_world\<lparr>configFile := Contents (credentials_without_repo),
           fetchDispatch := \<lambda>url payload. Inr 404\<rparr>) sample_options)
      = [LoadConfig, LoadEasConfig ''/app'', MapProfileToConfig ''production'',
        PackageProject ''/app'', Upload ''/tmp/build-1.tar.gz'']
   \<and> missingConfiguration (JObj [])
   \<and> take 4 (build (sample_world\<lparr>configFile := Contents (JObj [])\<rparr>) sample_options)
      = [LoadConfig, LoadEasConfig ''/app'', MapProfileToConfig ''production'',
        PackageProject ''/app'']"
  by code_simp

theorem missing_credentials_not_checked_witness:
  "MapProfileToConfig ''production''
     \<in> set (take 4 (build (sample_world\<lparr>configFile := Contents (JObj [])\<rparr>) sample_options))"
proof -
  have "take 4 (build (sample_world\<lparr>configFile := Contents (JObj [])\<rparr>) sample_options)
      = [LoadConfig, LoadEasConfig ''/app'', MapProfileToConfig ''production'',
        PackageProject ''/app'']"
    using missing_credentials_not_checked by (elim conjE)
  then show ?thesis by simp
qed

subsection \<open>C7: a project root that is not there\<close>

text \<open>
  Claim C7 says that packaging a root that does not exist fails before any network call.
  \<^verbatim>\<open>packageProject\<close> never asks whether the root exists: when the archiver emits no error for
  such a root, the archive path is returned and the upload follows.
\<close>

theorem missing_root_counterexample:
  "\<not> isDirectory (sample_world\<lparr>isDirectory := \<lambda>p. False\<rparr>) ''/nope''
   \<and> packageProject (sample_world\<lparr>isDirectory := \<lambda>p. False\<rparr>) ''/nope'' [] = Inr ''/tmp/build-1.tar.gz''
   \<and> take 5 (build (sample_world\<lparr>isDirectory := \<lambda>p. False\<rparr>) \<lparr>opt_path = Some ''/nope'', opt_profile = None\<rparr>)
       = [LoadConfig, LoadEasConfig ''/nope'', MapProfileToConfig ''production'',
          PackageProject ''/nope'', Upload ''/tmp/build-1.tar.gz'']"
  by code_simp

text \<open>
  Claim C7, amended. \<^verbatim>\<open>packageProject\<close> fails exactly when reading \<^verbatim>\<open>.buildignore\<close> throws
  or the archiver emits an error, whatever the project root is; whenever it fails,
  \<^verbatim>\<open>build\<close> makes no network call and ends the process with code 1.
\<close>

theorem packaging_failure_before_network:
  "((\<exists>e. packageProject w p ex = Inl e)
      \<longleftrightarrow> (buildIgnoreFile w p = Unreadable
           \<or> (\<exists>excludes. allExcludes (buildIgnoreFile w p) ex = Inr excludes
                          \<and> archiverGlob w p excludes \<noteq> None)))
   \<and> (packageProject w (projectPathOf w options) [] = Inl e' \<longrightarrow>
        list_all (\<lambda>ev. \<not> networkCall ev) (build w options) \<and> last (build w options) = Exit 1)"
proof (intro conjI impI)
  show "(\<exists>e. packageProject w p ex = Inl e)
      \<longleftrightarrow> (buildIgnoreFile w p = Unreadable
           \<or> (\<exists>excludes. allExcludes (buildIgnoreFile w p) ex = Inr excludes
                          \<and> archiverGlob w p excludes \<noteq> None))"
    by (rule packageProject_fails_iff)
next
  assume f: "packageProject w (projectPathOf w options) [] = Inl e'"
  then show "list_all (\<lambda>ev. \<not> networkCall ev) (build w options)"
    by (simp add: build_def Let_def split: fs_entry.splits sum.splits)
  from f show "last (build w options) = Exit 1"
    by (simp add: build_def Let_def split: fs_entry.splits sum.splits)
qed

theorem packaging_failure_before_network_witness:
  "list_all (\<lambda>ev. \<not> networkCall ev)
     (build (sample_world\<lparr>isDirectory := \<lambda>p. False, archiverGlob := \<lambda>p excludes. Some ArchiverError\<rparr>)
        sample_options)
   \<and> last (build (sample_world\<lparr>isDirectory := \<lambda>p. False, archiverGlob := \<lambda>p excludes. Some ArchiverError\<rparr>)
        sample_options) = Exit 1"
proof -
  let ?w = "sample_world\<lparr>isDirectory := \<lambda>p. False, archiverGlob := \<lambda>p excludes. Some ArchiverError\<rparr>"
  have "packageProject ?w (projectPathOf ?w sample_options) [] = Inl ArchiverError"
    by code_simp
  with packaging_failure_before_network[of ?w _ _ sample_options ArchiverError]
  show ?thesis by blast
qed

subsection \<open>C8: the auto-increment flag\<close>

text \<open>
  Claim C8 says that the flag is coerced to its truthiness. The profile
  \<^verbatim>\<open>{autoIncrement: 1}\<close> has a truthy flag and is mapped to the default configuration, whose
  flag is false.
\<close>

theorem autoIncrement_truthy_counterexample:
  "mapProfileToConfig ''production'' (JObj [(''autoIncrement'', JNum 1)]) = Inr default_config
   \<and> truthy (JNum 1) \<and> \<not> autoIncrement default_config"
  by (simp add: mapProfileToConfig_def Let_def default_config_def getProp_def)

text \<open>
  Claim C8, amended. The configuration's flag is true exactly when the profile's
  \<^verbatim>\<open>autoIncrement\<close> is the boolean \<^verbatim>\<open>true\<close>; every other value, truthy or not, gives false.
\<close>

theorem autoIncrement_strict:
  assumes "mapProfileToConfig p pc = Inr c"
  shows "autoIncrement c = (getProp pc ''autoIncrement'' = JBool True)"
proof (cases "truthy pc")
  case False
  with assms show ?thesis
    by (auto simp: mapProfileToConfig_falsy default_config_def getProp_falsy)
next
  case True
  show ?thesis by (rule mapProfileToConfig_fields(5)[OF True assms])
qed

theorem autoIncrement_strict_witness:
  "mapProfileToConfig ''production'' (JObj [(''autoIncrement'', JStr ''yes'')]) = Inr default_config
   \<and> autoIncrement default_config = (getProp (JObj [(''autoIncrement'', JStr ''yes'')]) ''autoIncrement'' = JBool True)"
proof -
  have m: "mapProfileToConfig ''production'' (JObj [(''autoIncrement'', JStr ''yes'')]) = Inr default_config"
    by (simp add: mapProfileToConfig_def Let_def default_config_def getProp_def)
  from autoIncrement_strict[OF m] m show ?thesis by simp
qed

subsection \<open>C9: removal of the temporary archive\<close>

text \<open>
  Claim C9 says that the archive is removed on every exit path. When the storage service
  fails, the process ends right after the upload step, with no removal.
\<close>

theorem upload_failure_counterexample:
  "build (sample_world\<lparr>storageCreateFile := \<lambda>p. Inl StorageError\<rparr>) sample_options
     = [LoadConfig, LoadEasConfig ''/app'', MapProfileToConfig ''production'',
        PackageProject ''/app'', Upload ''/tmp/build-1.tar.gz'', Exit 1]"
  by code_simp

text \<open>
  Claim C9, amended. The removal of the archive is attempted only after credentials,
  profile mapping, packaging, upload and dispatch have all succeeded, as the step right
  after the dispatch; if the removal itself throws, the process ends with code 1. On every
  path without a removal the process ends with code 1, and an upload that fails is never
  followed by a removal.
\<close>

theorem cleanup_only_after_dispatch:
  "(list_ex isUnlink (build w options) \<longrightarrow>
      (\<exists>pre url pl status p config c fileId.
          configFile w = Contents config
        \<and> resolveProfile (proto w) (easJson w (projectPathOf w options)) (profileOf options) = Inr c
        \<and> packageProject w (projectPathOf w options) [] = Inr p
        \<and> storageCreateFile w p = Inr fileId
        \<and> fetchDispatch w url pl = Inr status \<and> 200 \<le> status \<and> status \<le> 299
        \<and> \<not> list_ex isUnlink pre \<and> Exit 1 \<notin> set pre
        \<and> build w options
             = pre @ [Dispatch url pl, Unlink p]
                 @ (case unlinkSync w p of None \<Rightarrow> [] | Some e \<Rightarrow> [Exit 1])))
   \<and> (\<not> list_ex isUnlink (build w options) \<longrightarrow> last (build w options) = Exit 1)
   \<and> (\<forall>p e. packageProject w (projectPathOf w options) [] = Inr p \<and> storageCreateFile w p = Inl e
          \<longrightarrow> \<not> list_ex isUnlink (build w options))"
proof -
  let ?F = "\<exists>pre. build w options = pre @ [Exit 1] \<and> \<not> list_ex isUnlink pre"
  let ?S = "\<exists>pre url pl status p config c fileId.
          configFile w = Contents config
        \<and> resolveProfile (proto w) (easJson w (projectPathOf w options)) (profileOf options) = Inr c
        \<and> packageProject w (projectPathOf w options) [] = Inr p
        \<and> storageCreateFile w p = Inr fileId
        \<and> fetchDispatch w url pl = Inr status \<and> 200 \<le> status \<and> status \<le> 299
        \<and> \<not> list_ex isUnlink pre \<and> Exit 1 \<notin> set pre
        \<and> build w options
             = pre @ [Dispatch url pl, Unlink p]
                 @ (case unlinkSync w p of None \<Rightarrow> [] | Some e \<Rightarrow> [Exit 1])"
  have "?F \<or> ?S"
    using build_trace[of w options]
    by (elim disjE exE conjE) (fastforce simp: list_all_iff list_ex_iff)+
  then show ?thesis
  proof
    assume ?F
    then obtain pre where b: "build w options = pre @ [Exit 1]" and n: "\<not> list_ex isUnlink pre" by blast
    from b n have "\<not> list_ex isUnlink (build w options)" by (simp add: list_ex_iff)
    moreover from b have "last (build w options) = Exit 1" by simp
    ultimately show ?thesis by blast
  next
    assume s: ?S
    then obtain p fileId where
      p: "packageProject w (projectPathOf w options) [] = Inr p" "storageCreateFile w p = Inr fileId"
      and "Unlink p \<in> set (build w options)"
      by auto
    then have u: "list_ex isUnlink (build w options)"
      unfolding list_ex_iff by (intro bexI[of _ "Unlink p"]) simp_all
    have 3: "\<forall>q e. packageProject w (projectPathOf w options) [] = Inr q \<and> storageCreateFile w q = Inl e
          \<longrightarrow> \<not> list_ex isUnlink (build w options)"
      using p by auto
    from u s 3 show ?thesis by blast
  qed
qed

theorem cleanup_only_after_dispatch_witness:
  "list_ex isUnlink (build (sample_world\<lparr>unlinkSync := \<lambda>p. Some FsError\<rparr>) sample_options)
   \<and> last (build (sample_world\<lparr>unlinkSync := \<lambda>p. Some FsError\<rparr>) sample_options) = Exit 1
   \<and> last (build (sample_world\<lparr>fetchDispatch := \<lambda>url payload. Inr 404\<rparr>) sample_options) = Exit 1
   \<and> \<not> list_ex isUnlink (build (sample_world\<lparr>storageCreateFile := \<lambda>p. Inl StorageError\<rparr>) sample_options)"
proof -
  let ?w1 = "sample_world\<lparr>fetchDispatch := \<lambda>url payload. Inr 404\<rparr>"
  let ?w2 = "sample_world\<lparr>storageCreateFile := \<lambda>p. Inl StorageError\<rparr>"
  let ?w3 = "sample_world\<lparr>unlinkSync := \<lambda>p. Some FsError\<rparr>"
  have a: "list_ex isUnlink (build ?w3 sample_options)" by code_simp
  have a': "unlinkSync ?w3 p = Some FsError" for p by (simp add: sample_world_def)
  have b: "\<not> list_ex isUnlink (build ?w1 sample_options)" by code_simp
  have c: "packageProject ?w2 (projectPathOf ?w2 sample_options) [] = Inr ''/tmp/build-1.tar.gz''
           \<and> storageCreateFile ?w2 ''/tmp/build-1.tar.gz'' = Inl StorageError"
    by code_simp
  from cleanup_only_after_dispatch[of ?w3 sample_options] a
  obtain pre url pl p where "build ?w3 sample_options
             = pre @ [Dispatch url pl, Unlink p]
                 @ (case unlinkSync ?w3 p of None \<Rightarrow> [] | Some e \<Rightarrow> [Exit 1])"
    by blast
  then have l3: "last (build ?w3 sample_options) = Exit 1" by (simp add: a')
  from cleanup_only_after_dispatch[of ?w1 sample_options] b
  have l1: "last (build ?w1 sample_options) = Exit 1" by blast
  from cleanup_only_after_dispatch[of ?w2 sample_options] c
  have "\<not> list_ex isUnlink (build ?w2 sample_options)" by blast
  with a l3 l1 show ?thesis by blast
qed

subsection \<open>C10: an ignore file without patterns\<close>

text \<open>
  Claim C10. When \<^verbatim>\<open>.buildignore\<close> exists, the effective list starts with the built-in
  patterns if no pattern is parsed from the file and with the parsed patterns otherwise;
  no pattern is parsed exactly when every line, once trimmed, is blank or starts with the
  comment marker.
\<close>

theorem buildignore_zero_patterns_fallback:
  "allExcludes (Contents content) excludePatterns
     = Inr ((if parseBuildIgnore content = [] then builtinExcludes else parseBuildIgnore content)
            @ excludePatterns)
   \<and> (parseBuildIgnore content = []
        \<longleftrightarrow> (\<forall>line \<in> set (split_lines content).
               trim line = [] \<or> startsWith (trim line) CHR ''#''))"
proof
  show "allExcludes (Contents content) excludePatterns
     = Inr ((if parseBuildIgnore content = [] then builtinExcludes else parseBuildIgnore content)
            @ excludePatterns)"
    by (cases "parseBuildIgnore content") (simp_all add: allExcludes_def Let_def)
  show "parseBuildIgnore content = []
        \<longleftrightarrow> (\<forall>line \<in> set (split_lines content).
               trim line = [] \<or> startsWith (trim line) CHR ''#'')"
    by (rule parseBuildIgnore_empty_iff)
qed

theorem buildignore_zero_patterns_fallback_witness:
  "allExcludes (Contents (''# one\<newline>   \<newline> # two\<newline>'')) [''x'']
     = Inr (builtinExcludes @ [''x''])"
  using buildignore_zero_patterns_fallback[of
      "''# one\<newline>   \<newline> # two\<newline>''" "[''x'']"]
  by (simp add: parse_example2)

end
